theory Spec2Isabelle
  imports Complex_Main
begin

section \<open>The manifold layer of \<open>lie/base/manifold_element.h\<close>\<close>

text \<open>
  The header is a set of CRTP class templates. \<open>ManifoldElement<Derived>\<close> forwards
  every operation to a method that the realization \<open>Derived\<close> supplies
  (\<open>IsValidImpl\<close>, \<open>DistanceToImpl\<close>, \<open>InterpolateImpl\<close>, ...), and the types it
  works on come from \<open>ManifoldTraits<Derived>\<close>. A realization is modelled as a record
  of those methods over four type parameters:
  \<^item> \<open>'e\<close> is \<open>Element\<close>, \<open>'p\<close> is \<open>EmbeddingPoint\<close>, \<open>'v\<close> is \<open>TangentVector\<close> and
    \<open>'s\<close> is \<open>Scalar\<close>;
  \<^item> a method of the object takes the object as its first argument;
  \<^item> \<open>kEpsilon\<close> is \<open>Constants<Scalar>::kEpsilon\<close> of \<open>lie/base/constants.h\<close>, a
    header that the manifold header includes; its value is a parameter here;
  \<^item> \<open>Element_default\<close> and \<open>TangentVector_default\<close> are the values that the
    expression \<open>{}\<close> constructs at the types \<open>Element\<close> and \<open>TangentVector\<close>.
  Only the methods that the operations below call are fields of the record
  (\<open>FromPointImpl\<close>, \<open>ProjectImpl\<close> and \<open>PointImpl\<close> are forwarded in the same way by
  \<open>FromPoint\<close>, \<open>Project\<close> and \<open>Point\<close>; \<open>TangentSpaceBasisImpl\<close> is compiled out by
  \<open>#if 0\<close>).

  \<open>Scalar\<close> is a floating-point type in the program. The operations of this header
  only compare scalars with \<open><\<close>, so the model leaves \<open>'s\<close> abstract and asks of it
  what each statement needs: nothing but a relation \<open><\<close> for the definitions.
\<close>

record ('e, 'p, 'v, 's) Derived =
  IsValidImpl :: "'p \<Rightarrow> 's \<Rightarrow> bool"
  DistanceToImpl :: "'e \<Rightarrow> 'e \<Rightarrow> 's"
  InterpolateImpl :: "'e \<Rightarrow> 'e \<Rightarrow> 's \<Rightarrow> 'e"
  kEpsilon :: "'s"
  Element_default :: "'e"
  TangentVector_default :: "'v"

text \<open>
  \<open>IsValid\<close> and \<open>EqualTo\<close> declare \<open>Scalar tolerance = Constants<Scalar>::kEpsilon\<close>.
  A call that omits the argument is modelled by \<open>None\<close>, a call that passes \<open>t\<close> by
  \<open>Some t\<close>; \<open>tolerance_arg\<close> is the value the body then sees.
\<close>

definition tolerance_arg :: "('e, 'p, 'v, 's) Derived \<Rightarrow> 's option \<Rightarrow> 's" where
  "tolerance_arg d tolerance = (case tolerance of None \<Rightarrow> kEpsilon d | Some t \<Rightarrow> t)"

subsection \<open>\<open>ManifoldGeodesic\<close>\<close>

text \<open>The members \<open>beg_\<close> and \<open>end_\<close>; the constructor moves its arguments into them.\<close>

record 'e ManifoldGeodesic_obj =
  beg_mem :: "'e"
  end_mem :: "'e"

definition ManifoldGeodesic :: "'e \<Rightarrow> 'e \<Rightarrow> 'e ManifoldGeodesic_obj" where
  "ManifoldGeodesic b e = \<lparr>beg_mem = b, end_mem = e\<rparr>"

definition beg :: "'e ManifoldGeodesic_obj \<Rightarrow> 'e" where
  "beg g = beg_mem g"

definition end_point :: "'e ManifoldGeodesic_obj \<Rightarrow> 'e" where
  "end_point g = end_mem g"

subsection \<open>\<open>ManifoldElement\<close>\<close>

definition IsValid :: "('e, 'p, 'v, 's) Derived \<Rightarrow> 'p \<Rightarrow> 's option \<Rightarrow> bool" where
  "IsValid d point tolerance = IsValidImpl d point (tolerance_arg d tolerance)"

definition GeodesicTo :: "'e \<Rightarrow> 'e \<Rightarrow> 'e ManifoldGeodesic_obj" where
  "GeodesicTo this rhs = ManifoldGeodesic this rhs"

definition DistanceTo :: "('e, 'p, 'v, 's) Derived \<Rightarrow> 'e \<Rightarrow> 'e \<Rightarrow> 's" where
  "DistanceTo d this rhs = DistanceToImpl d this rhs"

definition Interpolate :: "('e, 'p, 'v, 's) Derived \<Rightarrow> 'e \<Rightarrow> 'e \<Rightarrow> 's \<Rightarrow> 'e" where
  "Interpolate d this rhs fraction = InterpolateImpl d this rhs fraction"

definition EqualTo :: "('e, 'p, 'v, 's::ord) Derived \<Rightarrow> 'e \<Rightarrow> 'e \<Rightarrow> 's option \<Rightarrow> bool" where
  "EqualTo d this rhs tolerance = (DistanceTo d this rhs < tolerance_arg d tolerance)"

definition operator_eq :: "('e, 'p, 'v, 's::ord) Derived \<Rightarrow> 'e \<Rightarrow> 'e \<Rightarrow> bool" where
  "operator_eq d this rhs = EqualTo d this rhs None"

definition operator_ne :: "('e, 'p, 'v, 's::ord) Derived \<Rightarrow> 'e \<Rightarrow> 'e \<Rightarrow> bool" where
  "operator_ne d this rhs = (\<not> operator_eq d this rhs)"

subsection \<open>\<open>ManifoldChart\<close>\<close>

record 'e ManifoldChart_obj =
  origin_mem :: "'e"

definition ManifoldChart :: "'e \<Rightarrow> 'e ManifoldChart_obj" where
  "ManifoldChart origin = \<lparr>origin_mem = origin\<rparr>"

text \<open>Both bodies are \<open>// TODO(erik): implement.\<close> followed by \<open>return {};\<close>.\<close>

definition ToTangent :: "('e, 'p, 'v, 's) Derived \<Rightarrow> 'e ManifoldChart_obj \<Rightarrow> 'e \<Rightarrow> 'v" where
  "ToTangent d chart rhs = TangentVector_default d"

definition ToManifold :: "('e, 'p, 'v, 's) Derived \<Rightarrow> 'e ManifoldChart_obj \<Rightarrow> 'v \<Rightarrow> 'e" where
  "ToManifold d chart rhs = Element_default d"

subsection \<open>Methods of \<open>ManifoldGeodesic\<close>\<close>

definition geodesic_Interpolate ::
  "('e, 'p, 'v, 's) Derived \<Rightarrow> 'e ManifoldGeodesic_obj \<Rightarrow> 's \<Rightarrow> 'e" where
  "geodesic_Interpolate d g fraction = Interpolate d (beg_mem g) (end_mem g) fraction"

definition Length :: "('e, 'p, 'v, 's) Derived \<Rightarrow> 'e ManifoldGeodesic_obj \<Rightarrow> 's" where
  "Length d g = DistanceTo d (beg_mem g) (end_mem g)"

text \<open>
  A geodesic as an object that receives calls. \<open>Interpolate\<close> and \<open>Length\<close> are
  \<open>const\<close> methods of a class without \<open>mutable\<close> members, so a call returns its value
  and the object as it was; \<open>geodesic_calls\<close> sends a list of calls to one object and
  returns the values with the object after the last call.
\<close>

datatype 's geodesic_method = Call_Interpolate 's | Call_Length

datatype ('e, 's) geodesic_value = Value_Element 'e | Value_Scalar 's

fun geodesic_call ::
  "('e, 'p, 'v, 's) Derived \<Rightarrow> 'e ManifoldGeodesic_obj \<Rightarrow> 's geodesic_method \<Rightarrow>
     ('e, 's) geodesic_value \<times> 'e ManifoldGeodesic_obj" where
  "geodesic_call d g (Call_Interpolate fraction) =
     (Value_Element (geodesic_Interpolate d g fraction), g)"
| "geodesic_call d g Call_Length = (Value_Scalar (Length d g), g)"

fun geodesic_calls ::
  "('e, 'p, 'v, 's) Derived \<Rightarrow> 'e ManifoldGeodesic_obj \<Rightarrow> 's geodesic_method list \<Rightarrow>
     ('e, 's) geodesic_value list \<times> 'e ManifoldGeodesic_obj" where
  "geodesic_calls d g [] = ([], g)"
| "geodesic_calls d g (c # cs) =
     (case geodesic_call d g c of
        (v, g') \<Rightarrow> (case geodesic_calls d g' cs of (vs, g'') \<Rightarrow> (v # vs, g'')))"

section \<open>The planar-rotation realization\<close>

text \<open>
  The header has no realization of \<open>Derived\<close> of its own. The one that the repository
  builds is the planar-rotation group (\<open>lie/so2/so2_group_element.h\<close> and \<open>.cc\<close>, with
  the angle utilities of \<open>utils/angles\<close>); it is modelled below from its description
  in the spec. An element is the angle of its rotation, a real number; a scalar is a
  real number, in place of the program's floating-point type; an embedding point is a
  \<open>2\<times>2\<close> matrix.
\<close>

text \<open>
  Modelled from the spec: the angle utility of \<open>utils/angles\<close> that wraps a raw angle
  into its canonical representative in \<open>(-\<pi>, \<pi>]\<close>.
\<close>

definition wrap_angle :: "real \<Rightarrow> real" where
  "wrap_angle a = a - 2 * pi * of_int \<lceil>(a - pi) / (2 * pi)\<rceil>"

text \<open>
  Modelled from the spec: the angle utility of \<open>utils/angles\<close> that computes the
  shortest signed angular difference between two angles (from \<open>a\<close> to \<open>b\<close>).
\<close>

definition angle_difference :: "real \<Rightarrow> real \<Rightarrow> real" where
  "angle_difference a b = wrap_angle (b - a)"

record Matrix2 =
  m00 :: real
  m01 :: real
  m10 :: real
  m11 :: real

text \<open>
  Modelled from the spec: \<open>IsValidImpl\<close> of the planar rotations,
  \<open>\<parallel>R\<^sup>TR - I\<parallel> < tol\<close> and \<open>det R \<approx> 1\<close>, read with the Frobenius norm and with \<open>\<approx>\<close> as
  closer than \<open>tol\<close>.
\<close>

definition SO2_IsValidImpl :: "Matrix2 \<Rightarrow> real \<Rightarrow> bool" where
  "SO2_IsValidImpl R tolerance =
     (sqrt ((m00 R * m00 R + m10 R * m10 R - 1)\<^sup>2 + (m00 R * m01 R + m10 R * m11 R)\<^sup>2
          + (m01 R * m00 R + m11 R * m10 R)\<^sup>2 + (m01 R * m01 R + m11 R * m11 R - 1)\<^sup>2)
        < tolerance
      \<and> \<bar>m00 R * m11 R - m01 R * m10 R - 1\<bar> < tolerance)"

text \<open>
  Modelled from the spec: \<open>DistanceToImpl\<close> of the planar rotations, the absolute value
  of the wrapped angular difference.
\<close>

definition SO2_DistanceToImpl :: "real \<Rightarrow> real \<Rightarrow> real" where
  "SO2_DistanceToImpl this rhs = \<bar>angle_difference this rhs\<bar>"

text \<open>
  Modelled from the spec: \<open>InterpolateImpl\<close> of the planar rotations. The spec has it
  move along the geodesic from this element toward \<open>rhs\<close>, a fraction outside \<open>[0,1]\<close>
  extrapolating along the same parameterization; on angles that is this element's angle
  plus \<open>fraction\<close> times the shortest signed difference to \<open>rhs\<close>, wrapped.
\<close>

definition SO2_InterpolateImpl :: "real \<Rightarrow> real \<Rightarrow> real \<Rightarrow> real" where
  "SO2_InterpolateImpl this rhs fraction =
     wrap_angle (this + fraction * angle_difference this rhs)"

text \<open>
  Modelled from the spec: the planar rotations as a realization, with the default
  tolerance \<open>epsilon\<close> of the tolerance provider as a parameter, and zero (the rotation
  by \<open>0\<close>, the zero tangent vector) as the value that \<open>{}\<close> constructs, which is what the
  spec says the chart stubs return.
\<close>

definition SO2 :: "real \<Rightarrow> (real, Matrix2, real, real) Derived" where
  "SO2 epsilon =
     \<lparr>IsValidImpl = SO2_IsValidImpl, DistanceToImpl = SO2_DistanceToImpl,
      InterpolateImpl = SO2_InterpolateImpl, kEpsilon = epsilon,
      Element_default = 0, TangentVector_default = 0\<rparr>"

text \<open>
  The header takes \<open>Element\<close> and \<open>TangentVector\<close> from \<open>ManifoldTraits<Derived>\<close> and
  asks nothing of what \<open>{}\<close> constructs at them. \<open>SO2_nonzero_defaults\<close> is the planar
  rotations over types whose default member initialisers are not zero: \<open>Element{}\<close> is
  the rotation by \<open>9\<close> and \<open>TangentVector{}\<close> the vector \<open>7\<close>.
\<close>

definition SO2_nonzero_defaults :: "(real, Matrix2, real, real) Derived" where
  "SO2_nonzero_defaults = (SO2 (1 / 1000000))\<lparr>Element_default := 9, TangentVector_default := 7\<rparr>"

section \<open>Angles\<close>

text \<open>The wrapped angle lies in \<open>(-\<pi>, \<pi>]\<close>, differs from the raw angle by whole turns, and
  is the raw angle where this one is in range already.\<close>

lemma wrap_angle_range: "- pi < wrap_angle a \<and> wrap_angle a \<le> pi"
proof -
  define k where "k = \<lceil>(a - pi) / (2 * pi)\<rceil>"
  have p: "0 < 2 * pi" by simp
  have "(a - pi) / (2 * pi) \<le> of_int k" unfolding k_def by (rule le_of_int_ceiling)
  then have u: "a - pi \<le> of_int k * (2 * pi)" using p by (simp add: pos_divide_le_eq)
  have "of_int k - 1 < (a - pi) / (2 * pi)" unfolding k_def by linarith
  then have l: "(of_int k - 1) * (2 * pi) < a - pi" using p by (simp add: pos_less_divide_eq)
  have "wrap_angle a = a - of_int k * (2 * pi)" by (simp add: wrap_angle_def k_def)
  with u l show ?thesis by (simp add: algebra_simps)
qed

lemma wrap_angle_shift: "wrap_angle (a + 2 * pi * of_int k) = wrap_angle a"
proof -
  have "(a + 2 * pi * of_int k - pi) / (2 * pi) = (a - pi) / (2 * pi) + of_int k"
    by (simp add: field_simps)
  then have "\<lceil>(a + 2 * pi * of_int k - pi) / (2 * pi)\<rceil> = \<lceil>(a - pi) / (2 * pi)\<rceil> + k"
    by (simp only: ceiling_add_of_int)
  then show ?thesis by (simp add: wrap_angle_def algebra_simps)
qed

lemma wrap_angle_id: "- pi < a \<Longrightarrow> a \<le> pi \<Longrightarrow> wrap_angle a = a"
proof -
  assume l: "- pi < a" and u: "a \<le> pi"
  have p: "0 < 2 * pi" by simp
  have "(a - pi) / (2 * pi) \<le> 0" using u p by (simp add: divide_le_0_iff)
  moreover have "-1 < (a - pi) / (2 * pi)" using l p by (simp add: pos_less_divide_eq)
  ultimately have "\<lceil>(a - pi) / (2 * pi)\<rceil> = 0" by linarith
  then show ?thesis by (simp add: wrap_angle_def)
qed

lemma wrap_angle_full_turns: "wrap_angle (2 * pi * of_int k) = 0"
  using wrap_angle_shift [of 0 k] wrap_angle_id [of 0] by simp

lemma wrap_angle_congruent: "\<exists>k::int. wrap_angle a = a - 2 * pi * of_int k"
  unfolding wrap_angle_def by blast

lemma wrap_angle_quarter: "wrap_angle (pi / 4) = pi / 4"
  by (rule wrap_angle_id) simp_all

lemma wrap_angle_half: "wrap_angle (pi / 2) = pi / 2"
  by (rule wrap_angle_id) simp_all

lemma wrap_angle_neg_abs: "\<bar>wrap_angle (- x)\<bar> = \<bar>wrap_angle x\<bar>"
proof -
  define w where "w = wrap_angle x"
  obtain k :: int where "w = x - 2 * pi * of_int k"
    unfolding w_def using wrap_angle_congruent by blast
  then have x: "x = w + 2 * pi * of_int k" by simp
  have r: "- pi < w" "w \<le> pi" using wrap_angle_range [of x] by (simp_all add: w_def)
  show ?thesis
  proof (cases "w = pi")
    case True
    have "- x = pi + 2 * pi * of_int (- k - 1)"
      unfolding x True by (simp add: algebra_simps)
    then have "wrap_angle (- x) = wrap_angle pi" by (simp only: wrap_angle_shift)
    also have "\<dots> = pi" by (rule wrap_angle_id) simp_all
    finally show ?thesis using True by (simp add: w_def)
  next
    case False
    with r have "- pi < - w" "- w \<le> pi" by simp_all
    then have "wrap_angle (- w) = - w" by (rule wrap_angle_id)
    moreover have "- x = - w + 2 * pi * of_int (- k)" unfolding x by simp
    then have "wrap_angle (- x) = wrap_angle (- w)" by (simp only: wrap_angle_shift)
    ultimately show ?thesis by (simp add: w_def)
  qed
qed

section \<open>The planar-rotation realization against the spec's examples\<close>

text \<open>
  The spec's testable properties, on the realization as modelled: the distance is
  symmetric, non-negative and at most \<open>\<pi>\<close>; the rotations by \<open>0.1\<close> and by \<open>2\<pi> + 0.1\<close> have
  distance zero; half-way between the rotations by \<open>0\<close> and \<open>\<pi>/2\<close> is the rotation by
  \<open>\<pi>/4\<close>; the fraction \<open>2\<close> between the rotations by \<open>0\<close> and \<open>\<pi>/4\<close> gives the rotation by
  \<open>\<pi>/2\<close>; \<open>IsValid\<close> accepts the identity matrix and rejects the identity scaled by
  \<open>1.1\<close>.
\<close>

lemma SO2_distance_bounds: "0 \<le> SO2_DistanceToImpl a b \<and> SO2_DistanceToImpl a b \<le> pi"
  using wrap_angle_range [of "b - a"]
  by (simp add: SO2_DistanceToImpl_def angle_difference_def abs_le_iff)

lemma SO2_distance_symmetric: "SO2_DistanceToImpl a b = SO2_DistanceToImpl b a"
  using wrap_angle_neg_abs [of "b - a"]
  by (simp add: SO2_DistanceToImpl_def angle_difference_def)

lemma SO2_distance_full_turn: "SO2_DistanceToImpl (1 / 10) (2 * pi + 1 / 10) = 0"
  using wrap_angle_full_turns [of 1] by (simp add: SO2_DistanceToImpl_def angle_difference_def)

lemma SO2_distance_self: "SO2_DistanceToImpl a a = 0"
  using wrap_angle_full_turns [of 0] by (simp add: SO2_DistanceToImpl_def angle_difference_def)

lemma SO2_distance_one: "SO2_DistanceToImpl 0 1 = 1"
proof -
  have "wrap_angle 1 = 1" using pi_ge_two by (intro wrap_angle_id) simp_all
  then show ?thesis by (simp add: SO2_DistanceToImpl_def angle_difference_def)
qed

lemma SO2_IsValid_identity:
  "0 < tolerance \<Longrightarrow> SO2_IsValidImpl \<lparr>m00 = 1, m01 = 0, m10 = 0, m11 = 1\<rparr> tolerance"
  by (simp add: SO2_IsValidImpl_def)

lemma SO2_IsValid_scaled:
  "tolerance \<le> 1 / 5 \<Longrightarrow>
   \<not> SO2_IsValidImpl \<lparr>m00 = 11 / 10, m01 = 0, m10 = 0, m11 = 11 / 10\<rparr> tolerance"
  by (simp add: SO2_IsValidImpl_def)

lemma SO2_Interpolate_half: "SO2_InterpolateImpl 0 (pi / 2) (1 / 2) = pi / 4"
proof -
  have "angle_difference 0 (pi / 2) = pi / 2"
    by (simp add: angle_difference_def wrap_angle_half)
  moreover have "0 + 1 / 2 * (pi / 2) = pi / 4" by simp
  ultimately show ?thesis
    by (simp only: SO2_InterpolateImpl_def wrap_angle_quarter)
qed

lemma SO2_Interpolate_twice: "SO2_InterpolateImpl 0 (pi / 4) 2 = pi / 2"
proof -
  have "angle_difference 0 (pi / 4) = pi / 4"
    by (simp add: angle_difference_def wrap_angle_quarter)
  moreover have "0 + 2 * (pi / 4) = pi / 2" by simp
  ultimately show ?thesis
    by (simp only: SO2_InterpolateImpl_def wrap_angle_half)
qed

lemma SO2_distance_Interpolate_0: "SO2_DistanceToImpl (SO2_InterpolateImpl a b 0) a = 0"
proof -
  obtain k :: int where "wrap_angle a = a - 2 * pi * of_int k"
    using wrap_angle_congruent by blast
  then have "a - wrap_angle a = 2 * pi * of_int k" by simp
  then show ?thesis
    by (simp add: SO2_DistanceToImpl_def SO2_InterpolateImpl_def angle_difference_def
        wrap_angle_full_turns)
qed

lemma SO2_distance_Interpolate_1: "SO2_DistanceToImpl (SO2_InterpolateImpl a b 1) b = 0"
proof -
  define w where "w = wrap_angle (b - a)"
  obtain k :: int where k: "w = b - a - 2 * pi * of_int k"
    unfolding w_def using wrap_angle_congruent by blast
  obtain l :: int where l: "wrap_angle (a + w) = a + w - 2 * pi * of_int l"
    using wrap_angle_congruent by blast
  have "b - wrap_angle (a + w) = b - a - w + 2 * pi * of_int l"
    by (simp add: l)
  also have "\<dots> = 2 * pi * of_int (k + l)"
    by (simp add: k algebra_simps)
  finally have "\<bar>wrap_angle (b - wrap_angle (a + w))\<bar> = 0"
    by (simp only: wrap_angle_full_turns abs_zero)
  then show ?thesis
    by (simp add: SO2_DistanceToImpl_def SO2_InterpolateImpl_def angle_difference_def w_def)
qed

lemma SO2_distance_Interpolate_line:
  "SO2_DistanceToImpl (SO2_InterpolateImpl a b f) (a + f * angle_difference a b) = 0"
proof -
  define x where "x = a + f * angle_difference a b"
  obtain k :: int where "wrap_angle x = x - 2 * pi * of_int k"
    using wrap_angle_congruent by blast
  then have "x - wrap_angle x = 2 * pi * of_int k" by simp
  then have "\<bar>wrap_angle (x - wrap_angle x)\<bar> = 0" by (simp only: wrap_angle_full_turns abs_zero)
  then show ?thesis
    unfolding SO2_DistanceToImpl_def SO2_InterpolateImpl_def x_def [symmetric]
    by (simp add: angle_difference_def)
qed

section \<open>Equality from distance\<close>

text \<open>
  Claim C3. For every pair of elements \<open>a\<close>, \<open>b\<close> and every tolerance \<open>t\<close>,
  \<open>a.EqualTo(b, t)\<close> is true exactly when \<open>a.DistanceTo(b) < t\<close>, with strict
  inequality; \<open>a == b\<close> is \<open>EqualTo\<close> at the default tolerance
  \<open>Constants<Scalar>::kEpsilon\<close>; \<open>a != b\<close> is the negation of \<open>a == b\<close>. The scalar
  type is any type with a relation \<open><\<close>.
\<close>

theorem EqualTo_is_strict_distance_test:
  "EqualTo d a b (Some t) = (DistanceTo d a b < t) \<and>
   operator_eq d a b = EqualTo d a b (Some (kEpsilon d)) \<and>
   operator_ne d a b = (\<not> operator_eq d a b)"
  by (simp add: EqualTo_def operator_eq_def operator_ne_def tolerance_arg_def)


text \<open>
  Claim C7. A call of \<open>IsValid\<close> or \<open>EqualTo\<close> that omits the tolerance hands
  \<open>Constants<Scalar>::kEpsilon\<close> to \<open>IsValidImpl\<close>, and compares the distance with it;
  a call that passes a tolerance \<open>t\<close> uses \<open>t\<close> as it is. No other constant takes part
  in either comparison.
\<close>

theorem default_tolerance_is_kEpsilon:
  "IsValid d point None = IsValidImpl d point (kEpsilon d) \<and>
   EqualTo d a b None = (DistanceToImpl d a b < kEpsilon d) \<and>
   IsValid d point (Some t) = IsValidImpl d point t \<and>
   EqualTo d a b (Some t) = (DistanceToImpl d a b < t)"
  by (simp add: IsValid_def EqualTo_def DistanceTo_def tolerance_arg_def)


text \<open>
  Claim C10. Where the distance from \<open>a\<close> to \<open>b\<close> is non-negative and the tolerance \<open>t\<close>
  is zero or negative, \<open>a.EqualTo(b, t)\<close> is false; in particular an element whose
  distance to itself is exactly zero is not \<open>EqualTo\<close> itself at tolerance zero. The
  scalar type is any preorder with a zero: the floating-point comparisons are one on
  the values that are not NaN, and a NaN distance or tolerance fails the hypotheses.
\<close>

theorem EqualTo_false_at_nonpositive_tolerance:
  fixes d :: "('e, 'p, 'v, 's::{zero, preorder}) Derived"
  assumes "0 \<le> DistanceTo d a b" and "t \<le> 0"
  shows "\<not> EqualTo d a b (Some t) \<and> (DistanceTo d a a = 0 \<longrightarrow> \<not> EqualTo d a a (Some 0))"
proof
  show "\<not> EqualTo d a b (Some t)"
  proof
    assume "EqualTo d a b (Some t)"
    then have "DistanceTo d a b < t" by (simp add: EqualTo_def tolerance_arg_def)
    also note \<open>t \<le> 0\<close>
    also note \<open>0 \<le> DistanceTo d a b\<close>
    finally show False by simp
  qed
  show "DistanceTo d a a = 0 \<longrightarrow> \<not> EqualTo d a a (Some 0)"
    by (simp add: EqualTo_def tolerance_arg_def)
qed

theorem EqualTo_false_at_nonpositive_tolerance_witness:
  "0 \<le> DistanceTo (SO2 (1 / 1000000)) 0 1 \<and> (0::real) \<le> 0 \<and>
   \<not> EqualTo (SO2 (1 / 1000000)) 0 1 (Some 0) \<and>
   DistanceTo (SO2 (1 / 1000000)) 0 0 = 0 \<and> \<not> EqualTo (SO2 (1 / 1000000)) 0 0 (Some 0)"
proof -
  have d1: "DistanceTo (SO2 (1 / 1000000)) 0 1 = 1"
    by (simp add: DistanceTo_def SO2_def SO2_distance_one)
  have d0: "DistanceTo (SO2 (1 / 1000000)) 0 0 = 0"
    by (simp add: DistanceTo_def SO2_def SO2_distance_self)
  have h: "0 \<le> DistanceTo (SO2 (1 / 1000000)) 0 1" by (simp add: d1)
  show ?thesis
    using EqualTo_false_at_nonpositive_tolerance [OF h, of 0] d1 d0 by simp
qed

section \<open>Geodesics\<close>

text \<open>A list of calls leaves the object they are sent to as it was.\<close>

lemma geodesic_calls_object: "snd (geodesic_calls d g cs) = g"
proof (induction cs arbitrary: g)
  case Nil
  show ?case by simp
next
  case (Cons c cs)
  have step: "snd (geodesic_call d g c) = g" by (cases c) simp_all
  obtain v g' where c: "geodesic_call d g c = (v, g')" by (cases "geodesic_call d g c")
  with step have g': "g' = g" by simp
  obtain vs g'' where cs: "geodesic_calls d g cs = (vs, g'')" by (cases "geodesic_calls d g cs")
  with Cons.IH [of g] have "g'' = g" by simp
  with c g' cs show ?case by simp
qed


text \<open>
  Claim C5. For every geodesic \<open>g\<close> and every fraction \<open>f\<close>, \<open>g.Interpolate(f)\<close> is
  \<open>g.beg().Interpolate(g.end(), f)\<close>, and \<open>g.Length()\<close> is \<open>g.beg().DistanceTo(g.end())\<close>.
\<close>

theorem geodesic_methods_delegate:
  "geodesic_Interpolate d g fraction = Interpolate d (beg g) (end_point g) fraction \<and>
   Length d g = DistanceTo d (beg g) (end_point g)"
  by (simp add: geodesic_Interpolate_def Length_def beg_def end_point_def)


text \<open>
  Claim C6. The geodesic that \<open>a.GeodesicTo(b)\<close> returns has \<open>a\<close> as its begin point and
  \<open>b\<close> as its end point. \<open>GeodesicTo\<close> and the constructor take the two elements only:
  no method of the realization, \<open>IsValidImpl\<close> among them, is within their reach, so the
  statement holds for every pair of elements, valid or not.
\<close>

theorem GeodesicTo_endpoints:
  "beg (GeodesicTo a b) = a \<and> end_point (GeodesicTo a b) = b"
  by (simp add: GeodesicTo_def ManifoldGeodesic_def beg_def end_point_def)


text \<open>
  Claim C9. A geodesic constructed from \<open>(b, e)\<close> returns \<open>b\<close> from \<open>beg()\<close> and \<open>e\<close> from
  \<open>end()\<close>; after any list of calls of \<open>Interpolate\<close> and \<open>Length\<close> the object is the
  one that was constructed, and its accessors still return \<open>b\<close> and \<open>e\<close>.
\<close>

theorem geodesic_members_unchanged:
  "beg (ManifoldGeodesic b e) = b \<and> end_point (ManifoldGeodesic b e) = e \<and>
   snd (geodesic_calls d (ManifoldGeodesic b e) cs) = ManifoldGeodesic b e \<and>
   beg (snd (geodesic_calls d (ManifoldGeodesic b e) cs)) = b \<and>
   end_point (snd (geodesic_calls d (ManifoldGeodesic b e) cs)) = e"
  by (simp add: geodesic_calls_object) (simp add: ManifoldGeodesic_def beg_def end_point_def)

section \<open>Interpolation\<close>

text \<open>
  Claim C4. \<open>a.Interpolate(b, 0)\<close> tolerance-equals \<open>a\<close> and \<open>a.Interpolate(b, 1)\<close>
  tolerance-equals \<open>b\<close>; a fraction outside \<open>[0,1]\<close> is accepted and extrapolates
  along the same parameterization. \<open>ManifoldElement::Interpolate\<close> hands every fraction
  to \<open>InterpolateImpl\<close> unchecked (last conjunct, for every realization \<open>d\<close>); what comes
  back is the realization's. For the planar rotations as modelled from the spec, and
  every positive tolerance, passed or default: the result at fraction \<open>0\<close> equals \<open>a\<close>,
  the result at fraction \<open>1\<close> equals \<open>b\<close>, and the result at any fraction \<open>f\<close>, inside
  \<open>[0,1]\<close> or not, is at distance zero from the rotation by the angle of \<open>a\<close> plus \<open>f\<close>
  times the shortest signed difference to \<open>b\<close>.
\<close>

theorem SO2_Interpolate_endpoints:
  assumes "0 < tolerance_arg (SO2 epsilon) tolerance"
  shows "EqualTo (SO2 epsilon) (Interpolate (SO2 epsilon) a b 0) a tolerance \<and>
         EqualTo (SO2 epsilon) (Interpolate (SO2 epsilon) a b 1) b tolerance \<and>
         DistanceTo (SO2 epsilon) (Interpolate (SO2 epsilon) a b fraction)
           (a + fraction * angle_difference a b) = 0 \<and>
         Interpolate d x y fraction' = InterpolateImpl d x y fraction'"
proof -
  have sel: "DistanceToImpl (SO2 epsilon) = SO2_DistanceToImpl"
    "InterpolateImpl (SO2 epsilon) = SO2_InterpolateImpl"
    by (simp_all add: SO2_def)
  show ?thesis
    using assms
    by (simp add: EqualTo_def DistanceTo_def Interpolate_def sel
        SO2_distance_Interpolate_0 SO2_distance_Interpolate_1 SO2_distance_Interpolate_line)
qed

theorem SO2_Interpolate_endpoints_witness:
  "0 < tolerance_arg (SO2 (1 / 1000000)) None \<and>
   EqualTo (SO2 (1 / 1000000)) (Interpolate (SO2 (1 / 1000000)) 3 (-3) 0) 3 None \<and>
   EqualTo (SO2 (1 / 1000000)) (Interpolate (SO2 (1 / 1000000)) 3 (-3) 1) (-3) None \<and>
   DistanceTo (SO2 (1 / 1000000)) (Interpolate (SO2 (1 / 1000000)) 3 (-3) 2)
     (3 + 2 * angle_difference 3 (-3)) = 0 \<and>
   Interpolate (SO2 (1 / 1000000)) 3 (-3) 2 = InterpolateImpl (SO2 (1 / 1000000)) 3 (-3) 2"
proof -
  have h: "0 < tolerance_arg (SO2 (1 / 1000000)) None"
    by (simp add: tolerance_arg_def SO2_def)
  show ?thesis
    using h SO2_Interpolate_endpoints [OF h, of 3 "-3" 2 "SO2 (1 / 1000000)" 3 "-3" 2]
    by blast
qed

section \<open>Charts\<close>

text \<open>
  Claim C2. As written, \<open>ManifoldChart::ToTangent\<close> and \<open>ManifoldChart::ToManifold\<close>
  return the value that \<open>{}\<close> constructs at their return type, for every chart and
  every argument; neither a logarithm nor an exponential is computed. That value is
  what the types of the realization make it: for the planar rotations of the spec it
  is zero (the zero tangent vector, the rotation by \<open>0\<close>), whatever the default
  tolerance, the chart and the argument.
\<close>

theorem chart_maps_return_default:
  "ToTangent d chart e = TangentVector_default d \<and> ToManifold d chart v = Element_default d \<and>
   ToTangent (SO2 epsilon) chart' e' = 0 \<and> ToManifold (SO2 epsilon) chart' v' = 0"
  by (simp add: ToTangent_def ToManifold_def SO2_def)

text \<open>
  The header alone does not make the returned value zero. Over element and tangent
  types that \<open>{}\<close> initialises to \<open>9\<close> and \<open>7\<close>, the chart at the rotation by \<open>1\<close> radian
  maps the element \<open>1\<close> to the tangent vector \<open>7\<close> and the tangent vector \<open>1/2\<close> to the
  rotation by \<open>9\<close>; neither is zero.
\<close>

theorem chart_maps_default_not_zero:
  "ToTangent SO2_nonzero_defaults (ManifoldChart 1) 1 = 7 \<and>
   ToManifold SO2_nonzero_defaults (ManifoldChart 1) (1 / 2) = 9 \<and>
   ToTangent SO2_nonzero_defaults (ManifoldChart 1) 1 \<noteq> 0 \<and>
   ToManifold SO2_nonzero_defaults (ManifoldChart 1) (1 / 2) \<noteq> 0"
  by (simp add: ToTangent_def ToManifold_def SO2_nonzero_defaults_def SO2_def)

text \<open>
  Claim C8. \<open>ToTangent\<close> does not depend on the chart: two charts built from any two
  origins, applied to any two elements, return the same tangent vector.
\<close>

theorem ToTangent_ignores_chart_and_argument:
  "ToTangent d (ManifoldChart origin1) e1 = ToTangent d (ManifoldChart origin2) e2"
  by (simp add: ToTangent_def)


text \<open>
  Claim C1. \<open>ToTangent\<close> and \<open>ToManifold\<close> are to be mutual inverses within tolerance.
  The code does not do this. On the planar rotations, with any default tolerance up to
  \<open>1\<close>, take the chart at the rotation by \<open>1\<close> radian and map its own origin, which the
  member comment of \<open>origin_\<close> pairs with the zero tangent vector: \<open>ToTangent\<close> gives
  zero, \<open>ToManifold\<close> of it gives the rotation by \<open>0\<close>, at distance \<open>1\<close> from the origin,
  so the round trip is not \<open>==\<close> its argument. The other way round, the tangent vector
  \<open>1/2\<close> comes back as \<open>0\<close>.
\<close>

theorem chart_round_trip_lost:
  assumes "epsilon \<le> 1"
  shows "\<not> operator_eq (SO2 epsilon)
           (ToManifold (SO2 epsilon) (ManifoldChart 1) (ToTangent (SO2 epsilon) (ManifoldChart 1) 1)) 1 \<and>
         ToTangent (SO2 epsilon) (ManifoldChart 1) (ToManifold (SO2 epsilon) (ManifoldChart 1) (1 / 2))
           \<noteq> 1 / 2"
proof -
  have m: "ToManifold (SO2 epsilon) (ManifoldChart 1)
      (ToTangent (SO2 epsilon) (ManifoldChart 1) 1) = 0"
    by (simp add: ToManifold_def SO2_def)
  have v: "ToTangent (SO2 epsilon) (ManifoldChart 1)
      (ToManifold (SO2 epsilon) (ManifoldChart 1) (1 / 2)) = 0"
    by (simp add: ToTangent_def SO2_def)
  have "DistanceTo (SO2 epsilon) 0 1 = 1"
    by (simp add: DistanceTo_def SO2_def SO2_distance_one)
  with assms have "\<not> operator_eq (SO2 epsilon) 0 1"
    by (simp add: operator_eq_def EqualTo_def tolerance_arg_def SO2_def)
  with m v show ?thesis by simp
qed

theorem chart_round_trip_lost_witness:
  "(1 / 1000000 :: real) \<le> 1 \<and>
   \<not> operator_eq (SO2 (1 / 1000000))
       (ToManifold (SO2 (1 / 1000000)) (ManifoldChart 1)
          (ToTangent (SO2 (1 / 1000000)) (ManifoldChart 1) 1)) 1"
proof -
  have h: "(1 / 1000000 :: real) \<le> 1" by simp
  show ?thesis using h chart_round_trip_lost [OF h] by simp
qed

end
